theory Spec2Isabelle
  imports Complex_Main "HOL-Library.Word"
begin

section \<open>Values of the Python runtime\<close>

text \<open>
  A Python \<open>str\<close> is a \<open>string\<close>, one \<open>char\<close> per code point (so the model covers the
  texts whose code points are below 256); \<open>bytes\<close> is a list of 8-bit words.
\<close>

type_synonym bytes = "8 word list"

text \<open>
  A Python \<open>float\<close>. Finite values are idealised as reals (every double is one); the
  three special values that \<open>json.loads\<close> accepts are kept apart.
\<close>

datatype pyfloat = Finite real | PosInf | NegInf | NaN

text \<open>
  What \<open>json.loads\<close> returns and \<open>json.dumps\<close> accepts. A \<open>dict\<close> is an association
  list read with \<open>map_of\<close>.
\<close>

datatype json =
    JNull
  | JBool bool
  | JInt int
  | JFloat pyfloat
  | JStr string
  | JArr "json list"
  | JObj "(string \<times> json) list"

text \<open>
  Exceptions are values: the class and the text that \<open>str(e)\<close> gives. All classes
  listed here derive from \<open>Exception\<close>; only \<open>JSONDecodeError\<close> is matched by
  \<open>except json.JSONDecodeError\<close>. What is no \<open>Exception\<close> (a cancellation, a keyboard
  interrupt) is outside the model. The texts of the exceptions that the interpreter
  raises are shortened; no statement below depends on them.
\<close>

datatype exn_class =
    JSONDecodeError
  | ValueError
  | TypeError
  | AttributeError
  | ZeroDivisionError
  | APIConnectionError
  | AuthenticationError
  | RateLimitError
  | UnidentifiedImageError
  | OtherException

datatype exn = Exn exn_class string

fun exn_class_of :: "exn \<Rightarrow> exn_class" where
  "exn_class_of (Exn c m) = c"

fun exn_str :: "exn \<Rightarrow> string" where
  "exn_str (Exn c m) = m"

text \<open>Truth value of an optional \<open>str\<close> or \<open>bytes\<close>: \<open>None\<close> and the empty value are false.\<close>

definition truthy :: "'a list option \<Rightarrow> bool" where
  "truthy x = (case x of None \<Rightarrow> False | Some v \<Rightarrow> v \<noteq> [])"

text \<open>\<open>data.get(key, default)\<close>: a lookup on a \<open>dict\<close>, an \<open>AttributeError\<close> on anything else.\<close>

definition py_get :: "json \<Rightarrow> string \<Rightarrow> json \<Rightarrow> exn + json" where
  "py_get data k dflt =
     (case data of
        JObj kvs \<Rightarrow> Inr (case map_of kvs k of None \<Rightarrow> dflt | Some v \<Rightarrow> v)
      | _ \<Rightarrow> Inl (Exn AttributeError ''object has no attribute get''))"

text \<open>\<open>s.find(c)\<close> and \<open>s.rfind(c)\<close> for a one-character needle: an index, or \<open>-1\<close>.\<close>

fun py_find :: "string \<Rightarrow> char \<Rightarrow> int" where
  "py_find [] c = - 1"
| "py_find (x # xs) c =
     (if x = c then 0
      else (let r = py_find xs c in if r = - 1 then - 1 else r + 1))"

definition py_rfind :: "string \<Rightarrow> char \<Rightarrow> int" where
  "py_rfind s c =
     (let r = py_find (rev s) c
      in if r = - 1 then - 1 else int (length s) - 1 - r)"

text \<open>\<open>s[i:j]\<close>: a negative index counts from the end, and both are cut to the string.\<close>

definition py_index :: "nat \<Rightarrow> int \<Rightarrow> nat" where
  "py_index n k = (if k < 0 then nat (max (k + int n) 0) else min (nat k) n)"

definition py_slice :: "'a list \<Rightarrow> int \<Rightarrow> int \<Rightarrow> 'a list" where
  "py_slice s i j = drop (py_index (length s) i) (take (py_index (length s) j) s)"

section \<open>The outside world\<close>

record image =
  width :: int
  height :: int
  mode :: string

text \<open>
  The standard library, Pillow and the remote API are not part of the repository: what
  they answer during one call of the consumer is a parameter.
  \<^item> \<open>json_loads\<close>: \<open>json.loads\<close>;
  \<^item> \<open>float_mod_is_zero c f\<close>: whether \<open>c % f == 0\<close> for an \<open>int\<close> \<open>c\<close> and a \<open>float\<close> \<open>f\<close>;
  \<^item> \<open>getenv\<close>: \<open>os.getenv\<close>;
  \<^item> \<open>make_client\<close>: the constructor \<open>OpenAI(api_key=...)\<close>;
  \<^item> \<open>image_open\<close>: \<open>Image.open(io.BytesIO(frame_data))\<close>;
  \<^item> \<open>thumbnail\<close>: \<open>image.thumbnail(max_size, LANCZOS)\<close>, returning the image it leaves;
  \<^item> \<open>convert\<close>: \<open>image.convert(mode)\<close>;
  \<^item> \<open>jpeg_base64 image quality\<close>: the image saved as JPEG and base64-encoded;
  \<^item> \<open>chat_create b64\<close>: the chat completion request carrying the data URL of \<open>b64\<close>,
    answering \<open>response.choices[0].message.content\<close>;
  \<^item> \<open>groq_create w h m k\<close>: the request of \<open>groq_service.py\<close>, whose text holds the
    image size \<open>w\<close>x\<open>h\<close>, its mode \<open>m\<close> and the frame number \<open>k\<close>, answering the same field.
\<close>

record env =
  json_loads :: "string \<Rightarrow> exn + json"
  float_mod_is_zero :: "int \<Rightarrow> pyfloat \<Rightarrow> exn + bool"
  getenv :: "string \<Rightarrow> string option"
  make_client :: "string \<Rightarrow> exn + unit"
  image_open :: "bytes \<Rightarrow> exn + image"
  thumbnail :: "image \<Rightarrow> int \<times> int \<Rightarrow> exn + image"
  convert :: "image \<Rightarrow> string \<Rightarrow> exn + image"
  jpeg_base64 :: "image \<Rightarrow> int \<Rightarrow> exn + string"
  chat_create :: "string \<Rightarrow> exn + string option"
  groq_create :: "int \<Rightarrow> int \<Rightarrow> string \<Rightarrow> int \<Rightarrow> exn + string option"

section \<open>Messages and effects\<close>

text \<open>The messages the consumer sends, one constructor per \<open>type\<close> field, with the other fields.\<close>

datatype server_msg =
    ConnectionEstablished string string
  | ConnectionError string string
  | ConfigurationAcknowledged json
  | FrameReceived int bool
  | Processing int string
  | AnalysisResult int json
  | AnalysisError int string
  | ErrorMsg string

text \<open>
  What a call does to the outside, in order: \<open>accept()\<close>, \<open>close()\<close>, \<open>send(...)\<close>, the call
  of \<open>analysis_service.analyze_frame\<close> on a frame, and the API request with the image
  that was encoded into it.
\<close>

datatype effect =
    Accept
  | Close
  | Send server_msg
  | Infer bytes
  | ApiRequest image string

section \<open>openai\_service.py\<close>

record service =
  api_key :: string
  model :: string

text \<open>\<open>OpenAIVideoAnalysisService.__init__\<close>.\<close>

definition service_init :: "env \<Rightarrow> string option \<Rightarrow> exn + service" where
  "service_init env key =
     (let k = (if truthy key then key else getenv env ''OPENAI_API_KEY'')
      in case k of
           None \<Rightarrow> Inl (Exn ValueError ''OPENAI_API_KEY not found in environment variables'')
         | Some v \<Rightarrow>
             if v = [] then
               Inl (Exn ValueError ''OPENAI_API_KEY not found in environment variables'')
             else (case make_client env v of
                     Inl e \<Rightarrow> Inl e
                   | Inr u \<Rightarrow> Inr \<lparr>api_key = v, model = ''gpt-4o''\<rparr>))"

text \<open>
  \<open>get_openai_video_analysis_service\<close>: the module-level singleton is the state that is
  passed in and returned.
\<close>

definition get_openai_video_analysis_service ::
  "env \<Rightarrow> service option \<Rightarrow> (exn + service) \<times> service option" where
  "get_openai_video_analysis_service env g =
     (case g of
        Some svc \<Rightarrow> (Inr svc, g)
      | None \<Rightarrow>
          (case service_init env None of
             Inl e \<Rightarrow> (Inl e, None)
           | Inr svc \<Rightarrow> (Inr svc, Some svc)))"

text \<open>\<open>preprocess_image\<close> with its default \<open>max_size = (1024, 1024)\<close>.\<close>

definition max_size :: "int \<times> int" where
  "max_size = (1024, 1024)"

definition preprocess_image :: "env \<Rightarrow> image \<Rightarrow> exn + image" where
  "preprocess_image env img =
     (case (if width img > fst max_size \<or> height img > snd max_size
            then thumbnail env img max_size else Inr img) of
        Inl e \<Rightarrow> Inl e
      | Inr img1 \<Rightarrow>
          if mode img1 \<noteq> ''RGB'' then convert env img1 ''RGB'' else Inr img1)"

text \<open>\<open>encode_image\<close> with its default \<open>quality = 75\<close>.\<close>

definition encode_image :: "env \<Rightarrow> image \<Rightarrow> exn + string" where
  "encode_image env img = jpeg_base64 env img 75"

text \<open>The dictionary built when a brace is missing.\<close>

definition parse_fallback :: json where
  "parse_fallback = JObj
     [(''drowsiness_level'', JStr ''unknown''),
      (''confidence'', JFloat (Finite 0)),
      (''observations'', JArr [JStr ''Failed to parse analysis'']),
      (''recommended_action'', JStr ''Manual review required'')]"

text \<open>The dictionary returned by \<open>except Exception as e\<close>.\<close>

definition failure_result :: "exn \<Rightarrow> json" where
  "failure_result e = JObj
     [(''error'', JStr (exn_str e)),
      (''drowsiness_level'', JStr ''unknown''),
      (''confidence'', JFloat (Finite 0)),
      (''observations'', JArr [JStr (''Analysis failed: '' @ exn_str e)]),
      (''recommended_action'', JStr ''Check API connection and try again'')]"

text \<open>
  Lines 115 to 133 of \<open>analyze_frame\<close>: the strict parse, and in the handler of
  \<open>JSONDecodeError\<close> the parse of the text from the first \<open>{\<close> to the last \<open>}\<close>. An
  exception of the second parse, or one of the first that is no \<open>JSONDecodeError\<close>, leaves
  this block.
\<close>

definition parse_content :: "env \<Rightarrow> string option \<Rightarrow> exn + json" where
  "parse_content env content =
     (case content of
        None \<Rightarrow> Inl (Exn TypeError ''the JSON object must be str, bytes or bytearray, not NoneType'')
      | Some c \<Rightarrow>
          (case json_loads env c of
             Inr result \<Rightarrow> Inr result
           | Inl e \<Rightarrow>
               if exn_class_of e = JSONDecodeError then
                 (let start = py_find c (CHR ''{'');
                      end = py_rfind c (CHR ''}'') + 1
                  in if start \<noteq> - 1 \<and> end \<noteq> 0
                     then json_loads env (py_slice c start end)
                     else Inr parse_fallback)
               else Inl e))"

text \<open>The body of the outer \<open>try\<close> of \<open>analyze_frame\<close>.\<close>

definition analyze_frame_try :: "env \<Rightarrow> bytes \<Rightarrow> (exn + json) \<times> effect list" where
  "analyze_frame_try env frame_data =
     (case image_open env frame_data of
        Inl e \<Rightarrow> (Inl e, [])
      | Inr img \<Rightarrow>
          (case preprocess_image env img of
             Inl e \<Rightarrow> (Inl e, [])
           | Inr img1 \<Rightarrow>
               (case encode_image env img1 of
                  Inl e \<Rightarrow> (Inl e, [])
                | Inr b64 \<Rightarrow>
                    (case chat_create env b64 of
                       Inl e \<Rightarrow> (Inl e, [ApiRequest img1 b64])
                     | Inr content \<Rightarrow> (parse_content env content, [ApiRequest img1 b64])))))"

text \<open>\<open>analyze_frame\<close>: every exception of the body becomes the failure dictionary.\<close>

definition analyze_frame :: "env \<Rightarrow> bytes \<Rightarrow> (exn + json) \<times> effect list" where
  "analyze_frame env frame_data =
     (case analyze_frame_try env frame_data of
        (Inr result, fx) \<Rightarrow> (Inr result, fx)
      | (Inl e, fx) \<Rightarrow> (Inr (failure_result e), fx))"

section \<open>groq\_service.py\<close>











section \<open>consumers.py\<close>

record session =
  analysis_service :: "service option"
  frame_count :: int
  analysis_interval :: json
  last_analysis_result :: "json option"
  group_name :: "string option"

text \<open>\<open>VideoAnalysisConsumer.__init__\<close>.\<close>

definition session_init :: session where
  "session_init =
     \<lparr>analysis_service = None, frame_count = 0, analysis_interval = JInt 1,
      last_analysis_result = None, group_name = None\<rparr>"

text \<open>
  \<open>connect\<close>, on the process-wide singleton \<open>g\<close>. The sends are taken to succeed (the
  connection is open).
\<close>

definition connect :: "env \<Rightarrow> service option \<Rightarrow> session \<Rightarrow> service option \<times> session \<times> effect list" where
  "connect env g s =
     (let s1 = s\<lparr>group_name := Some ''video_analysis''\<rparr>
      in case get_openai_video_analysis_service env g of
           (Inr svc, g1) \<Rightarrow>
             (g1, s1\<lparr>analysis_service := Some svc\<rparr>,
              [Accept, Send (ConnectionEstablished ''Connected to video analysis service'' ''ready'')])
         | (Inl e, g1) \<Rightarrow>
             (g1, s1,
              [Accept,
               Send (ConnectionError (''Failed to initialize analysis service: '' @ exn_str e) ''error''),
               Close]))"

text \<open>
  \<open>frame_count % analysis_interval == 0\<close>: \<open>bool\<close> is an \<open>int\<close>, a zero divisor raises, and
  \<open>%\<close> between an \<open>int\<close> and \<open>None\<close>, a \<open>str\<close>, a \<open>list\<close> or a \<open>dict\<close> is a \<open>TypeError\<close>.
\<close>

definition py_mod_is_zero :: "env \<Rightarrow> int \<Rightarrow> json \<Rightarrow> exn + bool" where
  "py_mod_is_zero env c v =
     (case v of
        JInt n \<Rightarrow>
          if n = 0 then Inl (Exn ZeroDivisionError ''integer modulo by zero'')
          else Inr (c mod n = 0)
      | JBool b \<Rightarrow>
          if b then Inr (c mod 1 = 0)
          else Inl (Exn ZeroDivisionError ''integer modulo by zero'')
      | JFloat f \<Rightarrow> float_mod_is_zero env c f
      | _ \<Rightarrow> Inl (Exn TypeError ''unsupported operand type(s) for %''))"

text \<open>
  \<open>process_frame\<close>. As \<open>analyze_frame\<close> is a call that may raise, its exception has a
  branch here, the handler of \<open>process_frame\<close>.
\<close>

definition process_frame :: "env \<Rightarrow> session \<Rightarrow> bytes \<Rightarrow> session \<times> effect list" where
  "process_frame env s frame_data =
     (let started = [Send (Processing (frame_count s) ''Analyzing frame...'')]
      in case analysis_service s of
           Some svc \<Rightarrow>
             (case analyze_frame env frame_data of
                (Inr result, fx) \<Rightarrow>
                  (s\<lparr>last_analysis_result := Some result\<rparr>,
                   started @ [Infer frame_data] @ fx @
                   [Send (AnalysisResult (frame_count s) result)])
              | (Inl e, fx) \<Rightarrow>
                  (s, started @ [Infer frame_data] @ fx @
                      [Send (AnalysisError (frame_count s) (exn_str e))]))
         | None \<Rightarrow>
             (s, started @ [Send (ErrorMsg ''Analysis service not initialized'')]))"

text \<open>
  Lines 61 to 70 of \<open>receive\<close>, run when \<open>text_data\<close> is true: \<open>Inr True\<close> when the
  \<open>return\<close> was taken.
\<close>

definition receive_text :: "env \<Rightarrow> session \<Rightarrow> string \<Rightarrow> (exn + bool) \<times> session \<times> effect list" where
  "receive_text env s text_data =
     (case json_loads env text_data of
        Inl e \<Rightarrow> (Inl e, s, [])
      | Inr data \<Rightarrow>
          (case py_get data ''type'' JNull of
             Inl e \<Rightarrow> (Inl e, s, [])
           | Inr t \<Rightarrow>
               if t = JStr ''configure'' then
                 (case py_get data ''interval'' (JInt 1) of
                    Inl e \<Rightarrow> (Inl e, s, [])
                  | Inr i \<Rightarrow>
                      (Inr True, s\<lparr>analysis_interval := i\<rparr>,
                       [Send (ConfigurationAcknowledged i)]))
               else (Inr False, s, [])))"

text \<open>Lines 74 to 85 of \<open>receive\<close>, run when \<open>bytes_data\<close> is true.\<close>

definition receive_bytes :: "env \<Rightarrow> session \<Rightarrow> bytes \<Rightarrow> (exn + unit) \<times> session \<times> effect list" where
  "receive_bytes env s bytes_data =
     (let s1 = s\<lparr>frame_count := frame_count s + 1\<rparr>
      in case py_mod_is_zero env (frame_count s1) (analysis_interval s1) of
           Inl e \<Rightarrow> (Inl e, s1, [])
         | Inr z \<Rightarrow>
             if z then
               (case process_frame env s1 bytes_data of (s2, out) \<Rightarrow> (Inr (), s2, out))
             else
               (Inr (), s1, [Send (FrameReceived (frame_count s1) False)]))"

text \<open>The body of the \<open>try\<close> of \<open>receive\<close>.\<close>

definition receive_try ::
  "env \<Rightarrow> session \<Rightarrow> string option \<Rightarrow> bytes option \<Rightarrow> (exn + unit) \<times> session \<times> effect list" where
  "receive_try env s text_data bytes_data =
     (case (case text_data of
              None \<Rightarrow> (Inr False, s, [])
            | Some t \<Rightarrow> if t \<noteq> [] then receive_text env s t else (Inr False, s, [])) of
        (Inl e, s1, out1) \<Rightarrow> (Inl e, s1, out1)
      | (Inr returned, s1, out1) \<Rightarrow>
          if returned then (Inr (), s1, out1)
          else (case bytes_data of
                  None \<Rightarrow> (Inr (), s1, out1)
                | Some b \<Rightarrow>
                    if b \<noteq> [] then
                      (case receive_bytes env s1 b of (r, s2, out2) \<Rightarrow> (r, s2, out1 @ out2))
                    else (Inr (), s1, out1)))"

text \<open>\<open>receive\<close>, with its two handlers. As in \<open>connect\<close>, the sends are taken to succeed.\<close>

definition receive :: "env \<Rightarrow> session \<Rightarrow> string option \<Rightarrow> bytes option \<Rightarrow> session \<times> effect list" where
  "receive env s text_data bytes_data =
     (case receive_try env s text_data bytes_data of
        (Inr u, s1, out) \<Rightarrow> (s1, out)
      | (Inl e, s1, out) \<Rightarrow>
          if exn_class_of e = JSONDecodeError
          then (s1, out @ [Send (ErrorMsg ''Invalid JSON format'')])
          else (s1, out @ [Send (ErrorMsg (exn_str e))]))"

section \<open>A connection's inbound messages\<close>

text \<open>
  The framework calls \<open>receive\<close> once per WebSocket message, with \<open>text_data\<close> for a text
  message and \<open>bytes_data\<close> for a binary one, and one call ends before the next begins.
\<close>

datatype inbound = TextMessage string | BinaryMessage bytes

definition deliver :: "env \<Rightarrow> session \<Rightarrow> inbound \<Rightarrow> session \<times> effect list" where
  "deliver env s m =
     (case m of
        TextMessage t \<Rightarrow> receive env s (Some t) None
      | BinaryMessage b \<Rightarrow> receive env s None (Some b))"

text \<open>
  A run of a session: each message comes with what the outside world answers while it is
  handled; the result is the last state and the effects of each message, in order.
\<close>

fun run :: "session \<Rightarrow> (env \<times> inbound) list \<Rightarrow> session \<times> effect list list" where
  "run s [] = (s, [])"
| "run s (ev # evs) =
     (case deliver (fst ev) s (snd ev) of
        (s1, out) \<Rightarrow> (case run s1 evs of (s2, outs) \<Rightarrow> (s2, out # outs)))"

text \<open>A frame is a binary message that holds an image: it is not empty.\<close>

fun is_frame :: "inbound \<Rightarrow> bool" where
  "is_frame (BinaryMessage b) = (b \<noteq> [])"
| "is_frame (TextMessage t) = False"

definition frames_in :: "(env \<times> inbound) list \<Rightarrow> nat" where
  "frames_in evs = length (filter is_frame (map snd evs))"


section \<open>Effects of interest\<close>

fun is_infer :: "effect \<Rightarrow> bool" where
  "is_infer (Infer b) = True"
| "is_infer e = False"

definition infers :: "effect list \<Rightarrow> nat" where
  "infers out = length (filter is_infer out)"

fun is_object :: "json \<Rightarrow> bool" where
  "is_object (JObj kvs) = True"
| "is_object v = False"

fun is_send :: "effect \<Rightarrow> bool" where
  "is_send (Send m) = True"
| "is_send e = False"

fun is_analysis_error :: "effect \<Rightarrow> bool" where
  "is_analysis_error (Send (AnalysisError k m)) = True"
| "is_analysis_error e = False"

section \<open>The raw output of the remote model\<close>

text \<open>
  The value of \<open>content\<close> at line 115 of \<open>openai_service.py\<close>, or the exception that
  \<open>analyze_frame\<close> met before: the steps of \<open>analyze_frame_try\<close> up to the reply.
\<close>

definition raw_output :: "env \<Rightarrow> bytes \<Rightarrow> exn + string option" where
  "raw_output env frame_data =
     (case image_open env frame_data of
        Inl e \<Rightarrow> Inl e
      | Inr img \<Rightarrow>
          (case preprocess_image env img of
             Inl e \<Rightarrow> Inl e
           | Inr img1 \<Rightarrow>
               (case encode_image env img1 of
                  Inl e \<Rightarrow> Inl e
                | Inr b64 \<Rightarrow> chat_create env b64)))"


text \<open>A field of a result, when the result is a dictionary that has it.\<close>

definition field :: "json \<Rightarrow> string \<Rightarrow> json option" where
  "field r k = (case r of JObj kvs \<Rightarrow> map_of kvs k | _ \<Rightarrow> None)"

section \<open>What the specification asks of a result\<close>

text \<open>The five levels of the specification's data model.\<close>

definition spec_levels :: "string list" where
  "spec_levels = [''awake'', ''mildly_drowsy'', ''moderately_drowsy'', ''highly_drowsy'', ''unknown'']"

fun spec_confidence_ok :: "json \<Rightarrow> bool" where
  "spec_confidence_ok (JInt n) = (0 \<le> n \<and> n \<le> 1)"
| "spec_confidence_ok (JFloat (Finite x)) = (0 \<le> x \<and> x \<le> 1)"
| "spec_confidence_ok v = False"

text \<open>
  The specification's invariant of an analysis result: the confidence is present and in
  range, the level is one of the five.
\<close>

definition spec_result_ok :: "json \<Rightarrow> bool" where
  "spec_result_ok r =
     (case r of
        JObj kvs \<Rightarrow>
          (case map_of kvs ''confidence'' of
             None \<Rightarrow> False
           | Some c \<Rightarrow> spec_confidence_ok c)
          \<and> (case map_of kvs ''drowsiness_level'' of
               Some (JStr l) \<Rightarrow> List.member spec_levels l
             | _ \<Rightarrow> False)
      | _ \<Rightarrow> False)"



section \<open>Concrete scenarios\<close>

text \<open>
  Texts with their values under \<open>json.loads\<close>. The decoder of the scenarios rejects any
  other text; of these it is only given the empty text, \<open>{oops}\<close>, \<open>{oo\<close>, \<open>not json\<close>,
  and the two replies below that wrap an object in prose or start a fence.
\<close>

definition configure_2 :: string where
  \<open>configure_2 = ''{"type": "configure", "interval": 2}''\<close>

definition configure_0 :: string where
  \<open>configure_0 = ''{"type": "configure", "interval": 0}''\<close>

definition ping :: string where
  \<open>ping = ''{"type": "ping"}''\<close>

definition reply_awake :: string where
  \<open>reply_awake = ''{"drowsiness_level": "awake", "confidence": 0.75}''\<close>

definition reply_sleepy :: string where
  \<open>reply_sleepy = ''{"drowsiness_level": "sleepy", "confidence": 7}''\<close>

definition reply_chatty :: string where
  \<open>reply_chatty = ''Sure: {"drowsiness_level": "sleepy", "confidence": 7} ok''\<close>


definition awake_result :: json where
  "awake_result = JObj [(''drowsiness_level'', JStr ''awake''), (''confidence'', JFloat (Finite 0.75))]"

definition sleepy_result :: json where
  "sleepy_result = JObj [(''drowsiness_level'', JStr ''sleepy''), (''confidence'', JInt 7)]"

definition known_texts :: "(string \<times> json) list" where
  "known_texts =
     [(configure_2, JObj [(''type'', JStr ''configure''), (''interval'', JInt 2)]),
      (configure_0, JObj [(''type'', JStr ''configure''), (''interval'', JInt 0)]),
      (ping, JObj [(''type'', JStr ''ping'')]),
      (reply_awake, awake_result),
      (reply_sleepy, sleepy_result)]"

definition loads_known :: "string \<Rightarrow> exn + json" where
  "loads_known t =
     (case map_of known_texts t of
        Some v \<Rightarrow> Inr v
      | None \<Rightarrow>
          if t = ''{oops}'' \<or> t = ''{oo'' then
            Inl (Exn JSONDecodeError
              ''Expecting property name enclosed in double quotes: line 1 column 2 (char 1)'')
          else Inl (Exn JSONDecodeError ''Expecting value: line 1 column 1 (char 0)''))"

definition float_mod :: "int \<Rightarrow> pyfloat \<Rightarrow> exn + bool" where
  "float_mod c f =
     (case f of
        Finite x \<Rightarrow>
          if x = 0 then Inl (Exn ZeroDivisionError ''float modulo'')
          else Inr (of_int \<lfloor>of_int c / x\<rfloor> * x = of_int c)
      | NaN \<Rightarrow> Inr False
      | _ \<Rightarrow> Inr (c = 0))"

text \<open>A thumbnail that keeps the aspect ratio, in integer arithmetic.\<close>

definition scale_to_fit :: "image \<Rightarrow> int \<times> int \<Rightarrow> exn + image" where
  "scale_to_fit img sz =
     (if width img < 1 \<or> height img < 1 \<or> fst sz < 1 \<or> snd sz < 1 then
        Inl (Exn ValueError ''bad image size'')
      else if width img \<le> fst sz \<and> height img \<le> snd sz then Inr img
      else if height img * fst sz \<le> width img * snd sz then
        Inr (img\<lparr>width := fst sz, height := max 1 (height img * fst sz div width img)\<rparr>)
      else
        Inr (img\<lparr>width := max 1 (width img * snd sz div height img), height := snd sz\<rparr>))"

text \<open>
  A world with the API key \<open>key\<close> in the environment, where every frame decodes to \<open>img\<close>
  and the remote model answers \<open>reply\<close>.
\<close>

definition world :: "string option \<Rightarrow> image \<Rightarrow> (exn + string option) \<Rightarrow> env" where
  "world key img reply =
     \<lparr>json_loads = loads_known,
      float_mod_is_zero = float_mod,
      getenv = (\<lambda>name. if name = ''OPENAI_API_KEY'' then key else None),
      make_client = (\<lambda>k. Inr ()),
      image_open = (\<lambda>b. if b = [] then Inl (Exn UnidentifiedImageError ''cannot identify image file'')
                         else Inr img),
      thumbnail = scale_to_fit,
      convert = (\<lambda>i m. Inr (i\<lparr>mode := m\<rparr>)),
      jpeg_base64 = (\<lambda>i q. Inr ''/9j/4AAQ''),
      chat_create = (\<lambda>b64. reply),
      groq_create = (\<lambda>w h m k. reply)\<rparr>"

definition jpeg :: bytes where
  "jpeg = [0xFF, 0xD8, 0xFF, 0xE0]"

definition camera :: image where
  "camera = \<lparr>width = 640, height = 480, mode = ''RGB''\<rparr>"


definition the_service :: service where
  "the_service = \<lparr>api_key = ''sk-test'', model = ''gpt-4o''\<rparr>"

text \<open>A session after \<open>connect\<close> has found the service, with sampling interval \<open>n\<close>.\<close>

definition ready :: "int \<Rightarrow> session" where
  "ready n =
     \<lparr>analysis_service = Some the_service, frame_count = 0, analysis_interval = JInt n,
      last_analysis_result = None, group_name = Some ''video_analysis''\<rparr>"

definition calm :: env where
  "calm = world (Some ''sk-test'') camera (Inr (Some reply_awake))"

definition offline :: env where
  "offline = world (Some ''sk-test'') camera (Inl (Exn APIConnectionError ''Connection error.''))"

definition throttled :: env where
  "throttled = world (Some ''sk-test'') camera (Inl (Exn RateLimitError ''Rate limit reached''))"

definition confused :: env where
  "confused = world (Some ''sk-test'') camera (Inr (Some reply_sleepy))"



definition chatty :: env where
  "chatty = world (Some ''sk-test'') camera (Inr (Some reply_chatty))"


definition keyless :: env where
  "keyless = world None camera (Inr (Some reply_awake))"




definition four_frames :: "(env \<times> inbound) list" where
  "four_frames = replicate 4 (calm, BinaryMessage jpeg)"


section \<open>Facts shared by the sections below\<close>

lemma analyze_frame_returns:
  "\<exists>r fx. analyze_frame env b = (Inr r, fx)"
  by (cases "analyze_frame_try env b") (auto simp: analyze_frame_def split: sum.splits)

lemma analyze_frame_try_effects:
  "x \<in> set (snd (analyze_frame_try env b)) \<Longrightarrow> \<not> is_infer x \<and> (\<forall>m. x \<noteq> Send m)"
  by (auto simp: analyze_frame_try_def split: sum.splits)

lemma analyze_frame_effects:
  "x \<in> set (snd (analyze_frame env b)) \<Longrightarrow> \<not> is_infer x \<and> (\<forall>m. x \<noteq> Send m)"
  using analyze_frame_try_effects [of x env b]
  by (cases "analyze_frame_try env b") (auto simp: analyze_frame_def split: sum.splits)

lemma deliver_frame_skipped:
  assumes "analysis_interval s = JInt n" "n \<noteq> 0" "b \<noteq> []" "\<not> n dvd frame_count s + 1"
  shows "deliver env s (BinaryMessage b) =
           (s\<lparr>frame_count := frame_count s + 1\<rparr>,
            [Send (FrameReceived (frame_count s + 1) False)])"
  using assms
  by (simp add: deliver_def receive_def receive_try_def receive_bytes_def py_mod_is_zero_def
      dvd_eq_mod_eq_0)

lemma deliver_frame_analyzed:
  assumes "analysis_interval s = JInt n" "n \<noteq> 0" "b \<noteq> []" "n dvd frame_count s + 1"
    "analysis_service s = Some svc" "analyze_frame env b = (Inr r, fx)"
  shows "deliver env s (BinaryMessage b) =
           (s\<lparr>frame_count := frame_count s + 1, last_analysis_result := Some r\<rparr>,
            [Send (Processing (frame_count s + 1) ''Analyzing frame...''), Infer b] @ fx @
            [Send (AnalysisResult (frame_count s + 1) r)])"
  using assms
  by (simp add: deliver_def receive_def receive_try_def receive_bytes_def py_mod_is_zero_def
      process_frame_def dvd_eq_mod_eq_0)


section \<open>The scenarios, evaluated\<close>

lemma loads_known_reply_awake: "loads_known reply_awake = Inr awake_result"
  by (simp add: loads_known_def known_texts_def configure_2_def configure_0_def ping_def
      reply_awake_def)

lemma loads_known_reply_sleepy: "loads_known reply_sleepy = Inr sleepy_result"
  by (simp add: loads_known_def known_texts_def configure_2_def configure_0_def ping_def
      reply_awake_def reply_sleepy_def)

lemma loads_known_configure_0:
  "loads_known configure_0 = Inr (JObj [(''type'', JStr ''configure''), (''interval'', JInt 0)])"
  by (simp add: loads_known_def known_texts_def configure_2_def configure_0_def)

lemma loads_known_configure_2:
  "loads_known configure_2 = Inr (JObj [(''type'', JStr ''configure''), (''interval'', JInt 2)])"
  by (simp add: loads_known_def known_texts_def configure_2_def)

lemma loads_known_ping: "loads_known ping = Inr (JObj [(''type'', JStr ''ping'')])"
  by (simp add: loads_known_def known_texts_def configure_2_def configure_0_def ping_def)

lemma loads_known_rejects:
  "loads_known [] = Inl (Exn JSONDecodeError ''Expecting value: line 1 column 1 (char 0)'')"
  "loads_known ''{oops}'' = Inl (Exn JSONDecodeError
     ''Expecting property name enclosed in double quotes: line 1 column 2 (char 1)'')"
  "loads_known ''not json'' = Inl (Exn JSONDecodeError ''Expecting value: line 1 column 1 (char 0)'')"
  by (simp_all add: loads_known_def known_texts_def configure_2_def configure_0_def ping_def
      reply_awake_def reply_sleepy_def)

lemma loads_known_rejects_more:
  "loads_known ''{oo'' = Inl (Exn JSONDecodeError
     ''Expecting property name enclosed in double quotes: line 1 column 2 (char 1)'')"
  "loads_known reply_chatty = Inl (Exn JSONDecodeError ''Expecting value: line 1 column 1 (char 0)'')"
  by (simp_all add: loads_known_def known_texts_def configure_2_def configure_0_def ping_def
      reply_awake_def reply_sleepy_def reply_chatty_def)

section \<open>The frame counter\<close>

lemma process_frame_frame_count:
  "frame_count (fst (process_frame env s b)) = frame_count s"
  by (simp add: process_frame_def Let_def split: option.splits sum.splits prod.splits)

lemma receive_text_frame_count:
  "frame_count (fst (snd (receive_text env s t))) = frame_count s"
  by (simp add: receive_text_def split: sum.splits)

lemma receive_bytes_frame_count:
  "frame_count (fst (snd (receive_bytes env s b))) = frame_count s + 1"
  by (simp add: receive_bytes_def Let_def process_frame_frame_count
      split: sum.splits prod.splits)

lemma deliver_frame_count:
  "frame_count (fst (deliver env s m)) = frame_count s + (if is_frame m then 1 else 0)"
proof (cases m)
  case (TextMessage t)
  have "frame_count (fst (snd (receive_text env s t))) = frame_count s"
    by (rule receive_text_frame_count)
  then show ?thesis using TextMessage
    by (cases "receive_text env s t")
       (auto simp: deliver_def receive_def receive_try_def split: sum.splits)
next
  case (BinaryMessage b)
  have "frame_count (fst (snd (receive_bytes env s b))) = frame_count s + 1"
    by (rule receive_bytes_frame_count)
  then show ?thesis using BinaryMessage
    by (cases "receive_bytes env s b")
       (auto simp: deliver_def receive_def receive_try_def split: sum.splits)
qed

lemma run_Cons_fst:
  "fst (run s (ev # evs)) = fst (run (fst (deliver (fst ev) s (snd ev))) evs)"
  by (simp split: prod.splits)

lemma run_Cons_snd:
  "snd (run s (ev # evs)) =
     snd (deliver (fst ev) s (snd ev)) # snd (run (fst (deliver (fst ev) s (snd ev))) evs)"
  by (simp split: prod.splits)

text \<open>
  C10. Over any run of a session, whatever the messages, the sampling interval and the
  answers of the outside world are, the frame counter ends at its first value plus the
  number of frames received: each frame adds exactly one (analysed, skipped or failed),
  and nothing else changes the counter.
\<close>

theorem frame_count_run:
  "frame_count (fst (run s evs)) = frame_count s + int (frames_in evs)"
proof (induction evs arbitrary: s)
  case Nil
  show ?case by (simp add: frames_in_def)
next
  case (Cons ev evs)
  define s1 where "s1 = fst (deliver (fst ev) s (snd ev))"
  have "frame_count s1 = frame_count s + (if is_frame (snd ev) then 1 else 0)"
    unfolding s1_def by (rule deliver_frame_count)
  moreover have "frame_count (fst (run s1 evs)) = frame_count s1 + int (frames_in evs)"
    by (rule Cons.IH)
  moreover have "fst (run s (ev # evs)) = fst (run s1 evs)"
    unfolding s1_def by (rule run_Cons_fst)
  ultimately show ?case
    by (simp add: frames_in_def)
qed

section \<open>Sampling\<close>

lemma div_step:
  assumes "(1::int) \<le> n"
  shows "(c + 1) div n = c div n + (if n dvd c + 1 then 1 else 0)"
proof -
  define q where "q = (c + 1) div n"
  define r where "r = (c + 1) mod n"
  have eq: "c + 1 = n * q + r" by (simp add: q_def r_def)
  have r0: "0 \<le> r" and rn: "r < n" using assms by (simp_all add: r_def)
  show ?thesis
  proof (cases "n dvd c + 1")
    case True
    then have "r = 0" by (simp add: r_def)
    with eq have "c = n * (q - 1) + (n - 1)" by (simp add: algebra_simps)
    then have "c div n = q - 1"
      using assms by (intro int_div_pos_eq [where r = "n - 1"]) simp_all
    with True show ?thesis by (simp add: q_def)
  next
    case False
    then have "r \<noteq> 0" by (simp add: r_def dvd_eq_mod_eq_0)
    with r0 have r1: "1 \<le> r" by simp
    from eq have "c = n * q + (r - 1)" by simp
    then have "c div n = q"
      using r1 rn by (intro int_div_pos_eq [where r = "r - 1"]) simp_all
    with False show ?thesis by (simp add: q_def)
  qed
qed


lemma infers_analyze_frame: "filter is_infer (snd (analyze_frame env b)) = []"
  using analyze_frame_effects [of _ env b] by (auto simp: filter_empty_conv)

lemma run_frames_state:
  assumes "analysis_interval s = JInt n" "analysis_service s = Some svc" "n \<noteq> 0"
    "\<forall>ev \<in> set evs. is_frame (snd ev)"
  shows "analysis_interval (fst (run s evs)) = JInt n \<and> analysis_service (fst (run s evs)) = Some svc"
  using assms
proof (induction evs arbitrary: s)
  case Nil
  then show ?case by simp
next
  case (Cons ev evs)
  obtain b where b: "snd ev = BinaryMessage b" "b \<noteq> []"
    using Cons.prems(4) by (cases "snd ev") auto
  obtain r fx where a: "analyze_frame (fst ev) b = (Inr r, fx)"
    using analyze_frame_returns by blast
  define s1 where "s1 = fst (deliver (fst ev) s (snd ev))"
  have "analysis_interval s1 = JInt n \<and> analysis_service s1 = Some svc"
  proof (cases "n dvd frame_count s + 1")
    case True
    show ?thesis unfolding s1_def b
      using deliver_frame_analyzed [OF Cons.prems(1) Cons.prems(3) b(2) True Cons.prems(2) a] Cons.prems
      by simp
  next
    case False
    show ?thesis unfolding s1_def b
      using deliver_frame_skipped [OF Cons.prems(1) Cons.prems(3) b(2) False] Cons.prems
      by simp
  qed
  then have "analysis_interval (fst (run s1 evs)) = JInt n \<and> analysis_service (fst (run s1 evs)) = Some svc"
    using Cons.prems by (intro Cons.IH) simp_all
  then show ?case unfolding s1_def run_Cons_fst .
qed

lemma deliver_frame_infers:
  assumes "analysis_interval s = JInt n" "analysis_service s = Some svc" "n \<noteq> 0" "b \<noteq> []"
  shows "infers (snd (deliver env s (BinaryMessage b))) = (if n dvd frame_count s + 1 then 1 else 0)"
proof (cases "n dvd frame_count s + 1")
  case True
  obtain r fx where a: "analyze_frame env b = (Inr r, fx)"
    using analyze_frame_returns by blast
  have "filter is_infer fx = []"
    using infers_analyze_frame [of env b] a by simp
  then show ?thesis
    using deliver_frame_analyzed [OF assms(1) assms(3) assms(4) True assms(2) a] True
    by (simp add: infers_def)
next
  case False
  then show ?thesis
    using deliver_frame_skipped [OF assms(1) assms(3) assms(4) False]
    by (simp add: infers_def)
qed

lemma deliver_frame_state:
  assumes "analysis_interval s = JInt n" "analysis_service s = Some svc" "n \<noteq> 0" "b \<noteq> []"
  shows "analysis_interval (fst (deliver env s (BinaryMessage b))) = JInt n
       \<and> analysis_service (fst (deliver env s (BinaryMessage b))) = Some svc
       \<and> frame_count (fst (deliver env s (BinaryMessage b))) = frame_count s + 1"
proof (cases "n dvd frame_count s + 1")
  case True
  obtain r fx where a: "analyze_frame env b = (Inr r, fx)"
    using analyze_frame_returns by blast
  show ?thesis
    using deliver_frame_analyzed [OF assms(1) assms(3) assms(4) True assms(2) a] assms by simp
next
  case False
  show ?thesis
    using deliver_frame_skipped [OF assms(1) assms(3) assms(4) False] assms by simp
qed

lemma run_frames_infers:
  assumes "analysis_interval s = JInt n" "analysis_service s = Some svc" "1 \<le> n"
    "\<forall>ev \<in> set evs. is_frame (snd ev)"
  shows "int (infers (concat (snd (run s evs)))) =
           (frame_count s + int (length evs)) div n - frame_count s div n"
  using assms
proof (induction evs arbitrary: s)
  case Nil
  then show ?case by (simp add: infers_def)
next
  case (Cons ev evs)
  have n0: "n \<noteq> 0" using Cons.prems(3) by simp
  obtain b where b: "snd ev = BinaryMessage b" "b \<noteq> []"
    using Cons.prems(4) by (cases "snd ev") auto
  define s1 where "s1 = fst (deliver (fst ev) s (snd ev))"
  have st: "analysis_interval s1 = JInt n \<and> analysis_service s1 = Some svc
      \<and> frame_count s1 = frame_count s + 1"
    unfolding s1_def b by (rule deliver_frame_state [OF Cons.prems(1) Cons.prems(2) n0 b(2)])
  have here: "int (infers (snd (deliver (fst ev) s (snd ev)))) =
      (frame_count s + 1) div n - frame_count s div n"
    unfolding b
    using deliver_frame_infers [OF Cons.prems(1) Cons.prems(2) n0 b(2), of "fst ev"]
      div_step [OF Cons.prems(3), of "frame_count s"]
    by simp
  have rest: "int (infers (concat (snd (run s1 evs)))) =
      (frame_count s1 + int (length evs)) div n - frame_count s1 div n"
    using st Cons.prems by (intro Cons.IH) simp_all
  have "infers (concat (snd (run s (ev # evs)))) =
      infers (snd (deliver (fst ev) s (snd ev))) + infers (concat (snd (run s1 evs)))"
    unfolding run_Cons_snd s1_def by (simp add: infers_def)
  then show ?case using here rest st by (simp add: add.commute add.left_commute)
qed

lemma run_frames_nth:
  assumes "analysis_interval s = JInt n" "analysis_service s = Some svc" "1 \<le> n"
    "\<forall>ev \<in> set evs. is_frame (snd ev)" "k < length evs"
  shows "(n dvd frame_count s + int k + 1 \<longrightarrow> infers (snd (run s evs) ! k) = 1)
       \<and> (\<not> n dvd frame_count s + int k + 1 \<longrightarrow>
            snd (run s evs) ! k = [Send (FrameReceived (frame_count s + int k + 1) False)])"
  using assms
proof (induction evs arbitrary: s k)
  case Nil
  then show ?case by simp
next
  case (Cons ev evs)
  have n0: "n \<noteq> 0" using Cons.prems(3) by simp
  obtain b where b: "snd ev = BinaryMessage b" "b \<noteq> []"
    using Cons.prems(4) by (cases "snd ev") auto
  define s1 where "s1 = fst (deliver (fst ev) s (snd ev))"
  have st: "analysis_interval s1 = JInt n \<and> analysis_service s1 = Some svc
      \<and> frame_count s1 = frame_count s + 1"
    unfolding s1_def b by (rule deliver_frame_state [OF Cons.prems(1) Cons.prems(2) n0 b(2)])
  show ?case
  proof (cases k)
    case 0
    have "snd (run s (ev # evs)) ! 0 = snd (deliver (fst ev) s (BinaryMessage b))"
      unfolding run_Cons_snd b by simp
    then show ?thesis
      using 0 deliver_frame_infers [OF Cons.prems(1) Cons.prems(2) n0 b(2), of "fst ev"]
        deliver_frame_skipped [OF Cons.prems(1) n0 b(2), of "fst ev"]
      by auto
  next
    case (Suc j)
    have j: "j < length evs" using Suc Cons.prems(5) by simp
    have "(n dvd frame_count s1 + int j + 1 \<longrightarrow> infers (snd (run s1 evs) ! j) = 1)
       \<and> (\<not> n dvd frame_count s1 + int j + 1 \<longrightarrow>
            snd (run s1 evs) ! j = [Send (FrameReceived (frame_count s1 + int j + 1) False)])"
      using st Cons.prems(3,4) j by (intro Cons.IH) simp_all
    moreover have "snd (run s (ev # evs)) ! k = snd (run s1 evs) ! j"
      unfolding run_Cons_snd s1_def Suc by simp
    moreover have "frame_count s1 + int j + 1 = frame_count s + int k + 1"
      using st Suc by simp
    ultimately show ?thesis by simp
  qed
qed

text \<open>
  C1. A session holds the service and an integer sampling interval \<open>n \<ge> 1\<close>, its
  counter is 0, and it receives \<open>m\<close> frames and nothing else. Then exactly \<open>m div n\<close> of
  them are handed to \<open>analyze_frame\<close>: the k-th frame (counted from 1) is handed over once
  when \<open>n\<close> divides \<open>k\<close>, and otherwise its only effect is the message \<open>frame_received\<close>
  with the number \<open>k\<close> and \<open>analyzed\<close> false.
\<close>

theorem sampling_admits_every_nth_frame:
  assumes "analysis_interval s = JInt n" and "1 \<le> n" and "frame_count s = 0"
    and "analysis_service s = Some svc" and "\<forall>ev \<in> set evs. is_frame (snd ev)"
  shows "int (infers (concat (snd (run s evs)))) = int (length evs) div n
       \<and> (\<forall>k < length evs.
            (n dvd int k + 1 \<longrightarrow> infers (snd (run s evs) ! k) = 1)
          \<and> (\<not> n dvd int k + 1 \<longrightarrow>
               snd (run s evs) ! k = [Send (FrameReceived (int k + 1) False)]))"
proof -
  have "int (infers (concat (snd (run s evs)))) = int (length evs) div n"
    using run_frames_infers [OF assms(1) assms(4) assms(2) assms(5)] assms(3) by simp
  moreover have "\<forall>k < length evs.
            (n dvd int k + 1 \<longrightarrow> infers (snd (run s evs) ! k) = 1)
          \<and> (\<not> n dvd int k + 1 \<longrightarrow>
               snd (run s evs) ! k = [Send (FrameReceived (int k + 1) False)])"
    using run_frames_nth [OF assms(1) assms(4) assms(2) assms(5)] assms(3) by simp
  ultimately show ?thesis by simp
qed

theorem sampling_admits_every_nth_frame_witness:
  "analysis_interval (ready 2) = JInt 2 \<and> (1::int) \<le> 2 \<and> frame_count (ready 2) = 0
   \<and> analysis_service (ready 2) = Some the_service
   \<and> list_all (\<lambda>ev. is_frame (snd ev)) four_frames
   \<and> int (infers (concat (snd (run (ready 2) four_frames)))) = 2
   \<and> snd (run (ready 2) four_frames) ! 0 = [Send (FrameReceived 1 False)]
   \<and> infers (snd (run (ready 2) four_frames) ! 1) = 1"
proof -
  have h1: "analysis_interval (ready 2) = JInt 2" by (simp add: ready_def)
  have h2: "(1::int) \<le> 2" by simp
  have h3: "frame_count (ready 2) = 0" by (simp add: ready_def)
  have h4: "analysis_service (ready 2) = Some the_service" by (simp add: ready_def)
  have h5: "\<forall>ev \<in> set four_frames. is_frame (snd ev)" by (simp add: four_frames_def jpeg_def)
  note t = sampling_admits_every_nth_frame [OF h1 h2 h3 h4 h5]
  have len: "length four_frames = 4" by (simp add: four_frames_def)
  from t have "int (infers (concat (snd (run (ready 2) four_frames)))) = 2"
    by (simp add: len)
  moreover from t len have "snd (run (ready 2) four_frames) ! 0 = [Send (FrameReceived 1 False)]"
    by (auto dest: spec [of _ 0])
  moreover from t len have "infers (snd (run (ready 2) four_frames) ! 1) = 1"
    by (auto dest: spec [of _ 1])
  ultimately show ?thesis using h1 h2 h3 h4 h5 by (simp add: list_all_iff)
qed

section \<open>Connecting\<close>

lemma get_service_failure_keeps_singleton:
  "get_openai_video_analysis_service env g = (Inl e, g1) \<Longrightarrow> g = None \<and> g1 = None"
  by (auto simp: get_openai_video_analysis_service_def split: option.splits sum.splits)

lemma get_service_success_sets_singleton:
  "get_openai_video_analysis_service env g = (Inr svc, g1) \<Longrightarrow> g1 = Some svc"
  by (auto simp: get_openai_video_analysis_service_def split: option.splits sum.splits)

lemma get_service_without_key:
  "getenv env ''OPENAI_API_KEY'' = None \<or> getenv env ''OPENAI_API_KEY'' = Some [] \<Longrightarrow>
   get_openai_video_analysis_service env None =
     (Inl (Exn ValueError ''OPENAI_API_KEY not found in environment variables''), None)"
  by (auto simp: get_openai_video_analysis_service_def service_init_def truthy_def)

text \<open>
  C7. \<open>connect\<close> accepts the connection and then asks for the service. When the service
  is obtained, the session sends \<open>connection_established\<close> with status \<open>ready\<close> and
  holds the service, so that a session fresh from \<open>__init__\<close> hands its first frame to
  \<open>analyze_frame\<close>. When obtaining it raises \<open>e\<close>, the session sends \<open>connection_error\<close>
  with the text of \<open>e\<close> and status \<open>error\<close>, then closes; \<open>connect\<close> returns, and the
  process-wide singleton is still unset, as it was, so later sessions are not affected.
  A missing \<open>OPENAI_API_KEY\<close> is such a failure.
\<close>

theorem connect_ready_or_closed:
  "(get_openai_video_analysis_service env g = (Inr svc, g1) \<longrightarrow>
      connect env g s =
        (Some svc, s\<lparr>group_name := Some ''video_analysis'', analysis_service := Some svc\<rparr>,
         [Accept, Send (ConnectionEstablished ''Connected to video analysis service'' ''ready'')])
      \<and> (b \<noteq> [] \<longrightarrow>
           infers (snd (deliver env2 (fst (snd (connect env g session_init))) (BinaryMessage b))) = 1))
   \<and> (get_openai_video_analysis_service env g = (Inl e, g1) \<longrightarrow>
      g = None \<and>
      connect env g s =
        (None, s\<lparr>group_name := Some ''video_analysis''\<rparr>,
         [Accept,
          Send (ConnectionError (''Failed to initialize analysis service: '' @ exn_str e) ''error''),
          Close]))
   \<and> (getenv env ''OPENAI_API_KEY'' = None \<longrightarrow>
      get_openai_video_analysis_service env None =
        (Inl (Exn ValueError ''OPENAI_API_KEY not found in environment variables''), None))"
proof (intro conjI impI)
  assume a: "get_openai_video_analysis_service env g = (Inr svc, g1)"
  then have g1: "g1 = Some svc" by (rule get_service_success_sets_singleton)
  show "connect env g s =
        (Some svc, s\<lparr>group_name := Some ''video_analysis'', analysis_service := Some svc\<rparr>,
         [Accept, Send (ConnectionEstablished ''Connected to video analysis service'' ''ready'')])"
    using a g1 by (simp add: connect_def)
  assume b: "b \<noteq> []"
  define s1 where "s1 = fst (snd (connect env g session_init))"
  have s1: "analysis_interval s1 = JInt 1" "analysis_service s1 = Some svc" "frame_count s1 = 0"
    using a g1 by (simp_all add: s1_def connect_def session_init_def)
  have "infers (snd (deliver env2 s1 (BinaryMessage b))) = (if (1::int) dvd frame_count s1 + 1 then 1 else 0)"
    by (rule deliver_frame_infers [OF s1(1) s1(2) _ b]) simp
  then show "infers (snd (deliver env2 (fst (snd (connect env g session_init))) (BinaryMessage b))) = 1"
    by (simp add: s1_def)
next
  assume a: "get_openai_video_analysis_service env g = (Inl e, g1)"
  then have g: "g = None \<and> g1 = None" by (rule get_service_failure_keeps_singleton)
  then show "g = None" by simp
  show "connect env g s =
        (None, s\<lparr>group_name := Some ''video_analysis''\<rparr>,
         [Accept,
          Send (ConnectionError (''Failed to initialize analysis service: '' @ exn_str e) ''error''),
          Close])"
    using a g by (simp add: connect_def)
next
  assume "getenv env ''OPENAI_API_KEY'' = None"
  then show "get_openai_video_analysis_service env None =
        (Inl (Exn ValueError ''OPENAI_API_KEY not found in environment variables''), None)"
    by (simp add: get_service_without_key)
qed


theorem connect_ready_or_closed_witness:
  "get_openai_video_analysis_service calm None = (Inr the_service, Some the_service)
   \<and> connect calm None session_init =
        (Some the_service, ready 1,
         [Accept, Send (ConnectionEstablished ''Connected to video analysis service'' ''ready'')])
   \<and> jpeg \<noteq> []
   \<and> infers (snd (deliver calm (fst (snd (connect calm None session_init))) (BinaryMessage jpeg))) = 1
   \<and> getenv keyless ''OPENAI_API_KEY'' = None
   \<and> get_openai_video_analysis_service keyless None =
        (Inl (Exn ValueError ''OPENAI_API_KEY not found in environment variables''), None)
   \<and> connect keyless None session_init =
        (None, session_init\<lparr>group_name := Some ''video_analysis''\<rparr>,
         [Accept,
          Send (ConnectionError
            ''Failed to initialize analysis service: OPENAI_API_KEY not found in environment variables''
            ''error''),
          Close])"
proof -
  have ok: "get_openai_video_analysis_service calm None = (Inr the_service, Some the_service)"
    by (simp add: get_openai_video_analysis_service_def service_init_def truthy_def calm_def
        world_def the_service_def)
  have j: "jpeg \<noteq> []" by (simp add: jpeg_def)
  have nokey: "getenv keyless ''OPENAI_API_KEY'' = None"
    by (simp add: keyless_def world_def)
  note t1 = connect_ready_or_closed
    [where env = calm and g = None and svc = the_service and ?g1.0 = "Some the_service"
       and s = session_init and b = jpeg and ?env2.0 = calm]
  note t2 = connect_ready_or_closed
    [where env = keyless and g = None and s = session_init and ?g1.0 = None
       and e = "Exn ValueError ''OPENAI_API_KEY not found in environment variables''"]
  from t2 nokey have bad: "get_openai_video_analysis_service keyless None =
        (Inl (Exn ValueError ''OPENAI_API_KEY not found in environment variables''), None)"
    by simp
  have r: "session_init\<lparr>group_name := Some ''video_analysis'', analysis_service := Some the_service\<rparr>
      = ready 1"
    by (simp add: ready_def session_init_def)
  from t1 ok j have "connect calm None session_init =
        (Some the_service, ready 1,
         [Accept, Send (ConnectionEstablished ''Connected to video analysis service'' ''ready'')])"
    "infers (snd (deliver calm (fst (snd (connect calm None session_init))) (BinaryMessage jpeg))) = 1"
    unfolding r [symmetric] by blast+
  moreover from t2 bad have "connect keyless None session_init =
        (None, session_init\<lparr>group_name := Some ''video_analysis''\<rparr>,
         [Accept,
          Send (ConnectionError
            ''Failed to initialize analysis service: OPENAI_API_KEY not found in environment variables''
            ''error''),
          Close])"
    by simp
  ultimately show ?thesis using ok j nokey bad by simp
qed


section \<open>Preparing the image\<close>














section \<open>Text messages\<close>

lemma deliver_text_undecodable:
  assumes "t \<noteq> []" "json_loads env t = Inl e"
  shows "deliver env s (TextMessage t) =
           (s, [Send (ErrorMsg (if exn_class_of e = JSONDecodeError
                                then ''Invalid JSON format'' else exn_str e))])"
  using assms
  by (simp add: deliver_def receive_def receive_try_def receive_text_def)

lemma deliver_text_not_object:
  assumes "t \<noteq> []" "json_loads env t = Inr d" "\<not> is_object d"
  shows "deliver env s (TextMessage t) = (s, [Send (ErrorMsg ''object has no attribute get'')])"
  using assms
  by (cases d)
     (simp_all add: deliver_def receive_def receive_try_def receive_text_def py_get_def)

lemma deliver_text_configure:
  assumes "t \<noteq> []" "json_loads env t = Inr (JObj kvs)"
    "map_of kvs ''type'' = Some (JStr ''configure'')"
  shows "deliver env s (TextMessage t) =
           (s\<lparr>analysis_interval := (case map_of kvs ''interval'' of None \<Rightarrow> JInt 1 | Some v \<Rightarrow> v)\<rparr>,
            [Send (ConfigurationAcknowledged
               (case map_of kvs ''interval'' of None \<Rightarrow> JInt 1 | Some v \<Rightarrow> v))])"
  using assms
  by (simp add: deliver_def receive_def receive_try_def receive_text_def py_get_def)

lemma deliver_text_other_object:
  assumes "t \<noteq> []" "json_loads env t = Inr (JObj kvs)"
    "map_of kvs ''type'' \<noteq> Some (JStr ''configure'')"
  shows "deliver env s (TextMessage t) = (s, [])"
  using assms
  by (cases "map_of kvs ''type''")
     (simp_all add: deliver_def receive_def receive_try_def receive_text_def py_get_def)

lemma deliver_empty:
  "deliver env s (TextMessage []) = (s, [])" "deliver env s (BinaryMessage []) = (s, [])"
  by (simp_all add: deliver_def receive_def receive_try_def)

lemma deliver_frame_sends:
  assumes "b \<noteq> []"
  shows "list_ex is_send (snd (deliver env s (BinaryMessage b)))"
proof -
  define s1 where "s1 = s\<lparr>frame_count := frame_count s + 1\<rparr>"
  show ?thesis
  proof (cases "py_mod_is_zero env (frame_count s1) (analysis_interval s1)")
    case (Inl e)
    with assms show ?thesis
      by (simp add: deliver_def receive_def receive_try_def receive_bytes_def s1_def)
  next
    case (Inr z)
    show ?thesis
    proof (cases z)
      case True
      have "list_ex is_send (snd (process_frame env s1 b))"
        by (cases "analyze_frame env b")
           (simp add: process_frame_def Let_def split: option.splits sum.splits)
      with Inr True assms show ?thesis
        by (cases "process_frame env s1 b")
           (simp add: deliver_def receive_def receive_try_def receive_bytes_def s1_def)
    next
      case False
      with Inr assms show ?thesis
        by (simp add: deliver_def receive_def receive_try_def receive_bytes_def s1_def)
    qed
  qed
qed

text \<open>
  Against C3 as stated: a session with interval 1 that receives
  \<open>{"type": "configure", "interval": 0}\<close> takes 0 as its interval and acknowledges it.
\<close>

theorem configure_zero_is_accepted:
  "deliver calm (ready 1) (TextMessage configure_0) =
     (ready 0, [Send (ConfigurationAcknowledged (JInt 0))])"
proof -
  have "configure_0 \<noteq> []" by (simp add: configure_0_def)
  moreover have "json_loads calm configure_0 =
      Inr (JObj [(''type'', JStr ''configure''), (''interval'', JInt 0)])"
    by (simp add: calm_def world_def loads_known_configure_0)
  ultimately have "deliver calm (ready 1) (TextMessage configure_0) =
      ((ready 1)\<lparr>analysis_interval := JInt 0\<rparr>, [Send (ConfigurationAcknowledged (JInt 0))])"
    by (simp add: deliver_def receive_def receive_try_def receive_text_def py_get_def)
  then show ?thesis by (simp add: ready_def)
qed

text \<open>
  C3, amended. A \<open>configure\<close> message is accepted whatever its interval is, 0 and
  negative values included: the sampling interval becomes the value of the field (1 when
  the field is absent), \<open>configuration_acknowledged\<close> with that value is the only effect,
  and no validation error is raised.
\<close>

theorem configure_sets_interval_unchecked:
  assumes "t \<noteq> []" and "json_loads env t = Inr (JObj kvs)"
    and "map_of kvs ''type'' = Some (JStr ''configure'')"
  shows "deliver env s (TextMessage t) =
           (s\<lparr>analysis_interval := (case map_of kvs ''interval'' of None \<Rightarrow> JInt 1 | Some v \<Rightarrow> v)\<rparr>,
            [Send (ConfigurationAcknowledged
               (case map_of kvs ''interval'' of None \<Rightarrow> JInt 1 | Some v \<Rightarrow> v))])"
  using assms by (rule deliver_text_configure)

theorem configure_sets_interval_unchecked_witness:
  "configure_2 \<noteq> []
   \<and> json_loads calm configure_2 = Inr (JObj [(''type'', JStr ''configure''), (''interval'', JInt 2)])
   \<and> map_of [(''type'', JStr ''configure''), (''interval'', JInt 2)] ''type'' = Some (JStr ''configure'')
   \<and> deliver calm (ready 1) (TextMessage configure_2) =
        (ready 2, [Send (ConfigurationAcknowledged (JInt 2))])"
proof -
  have h1: "configure_2 \<noteq> []" by (simp add: configure_2_def)
  have h2: "json_loads calm configure_2 =
      Inr (JObj [(''type'', JStr ''configure''), (''interval'', JInt 2)])"
    by (simp add: calm_def world_def loads_known_configure_2)
  have h3: "map_of [(''type'', JStr ''configure''), (''interval'', JInt 2)] ''type'' =
      Some (JStr ''configure'')"
    by simp
  have "deliver calm (ready 1) (TextMessage configure_2) =
        (ready 2, [Send (ConfigurationAcknowledged (JInt 2))])"
    using configure_sets_interval_unchecked [OF h1 h2 h3, of "ready 1"]
    by (simp add: ready_def)
  with h1 h2 h3 show ?thesis by simp
qed

text \<open>
  Against C9 as stated: the empty text is not valid JSON, and a session that receives it
  sends nothing.
\<close>

theorem empty_text_gets_no_answer:
  "json_loads calm [] = Inl (Exn JSONDecodeError ''Expecting value: line 1 column 1 (char 0)'')
   \<and> deliver calm (ready 1) (TextMessage []) = (ready 1, [])"
  by (simp add: calm_def world_def loads_known_rejects deliver_empty)

text \<open>
  C9, amended. When a session receives a text message that is not empty and that
  \<open>json.loads\<close> rejects, it sends one \<open>error\<close> message (\<open>Invalid JSON format\<close> for a
  \<open>JSONDecodeError\<close>) and its state, with the frame counter and the sampling interval,
  is what it was.
\<close>

theorem undecodable_text_is_answered_and_ignored:
  assumes "t \<noteq> []" and "json_loads env t = Inl e"
  shows "deliver env s (TextMessage t) =
           (s, [Send (ErrorMsg (if exn_class_of e = JSONDecodeError
                                then ''Invalid JSON format'' else exn_str e))])"
  using assms by (rule deliver_text_undecodable)

theorem undecodable_text_is_answered_and_ignored_witness:
  "''not json'' \<noteq> []
   \<and> json_loads calm ''not json'' = Inl (Exn JSONDecodeError ''Expecting value: line 1 column 1 (char 0)'')
   \<and> deliver calm (ready 2) (TextMessage ''not json'') =
        (ready 2, [Send (ErrorMsg ''Invalid JSON format'')])"
proof -
  have h1: "''not json'' \<noteq> []" by simp
  have h2: "json_loads calm ''not json'' = Inl (Exn JSONDecodeError ''Expecting value: line 1 column 1 (char 0)'')"
    by (simp add: calm_def world_def loads_known_rejects)
  from undecodable_text_is_answered_and_ignored [OF h1 h2, of "ready 2"] h1 h2
  show ?thesis by simp
qed

text \<open>
  Against C5 as stated: a session that receives the text \<open>{"type": "ping"}\<close> sends
  nothing.
\<close>

theorem ping_gets_no_answer:
  "deliver calm (ready 1) (TextMessage ping) = (ready 1, [])"
proof -
  have "ping \<noteq> []" by (simp add: ping_def)
  moreover have "json_loads calm ping = Inr (JObj [(''type'', JStr ''ping'')])"
    by (simp add: calm_def world_def loads_known_ping)
  ultimately show ?thesis
    by (simp add: deliver_def receive_def receive_try_def receive_text_def py_get_def)
qed

text \<open>
  C5, amended. A session sends at least one message in answer to a frame (a binary
  message that is not empty: analysed, skipped, or failing at the sampling test), to a
  text that is not empty and that \<open>json.loads\<close> rejects or decodes to something else than
  an object, and to a \<open>configure\<close> message. It sends nothing in answer to an object whose
  \<open>type\<close> is not \<open>configure\<close>, and nothing in answer to an empty message.
\<close>

theorem answered_and_unanswered_messages:
  "(b \<noteq> [] \<longrightarrow> list_ex is_send (snd (deliver env s (BinaryMessage b))))
   \<and> (t \<noteq> [] \<and> json_loads env t = Inl e \<longrightarrow>
        list_ex is_send (snd (deliver env s (TextMessage t))))
   \<and> (t \<noteq> [] \<and> json_loads env t = Inr d \<and> \<not> is_object d \<longrightarrow>
        list_ex is_send (snd (deliver env s (TextMessage t))))
   \<and> (t \<noteq> [] \<and> json_loads env t = Inr (JObj kvs)
        \<and> map_of kvs ''type'' = Some (JStr ''configure'') \<longrightarrow>
        list_ex is_send (snd (deliver env s (TextMessage t))))
   \<and> (t \<noteq> [] \<and> json_loads env t = Inr (JObj kvs)
        \<and> map_of kvs ''type'' \<noteq> Some (JStr ''configure'') \<longrightarrow>
        snd (deliver env s (TextMessage t)) = [])
   \<and> snd (deliver env s (TextMessage [])) = []
   \<and> snd (deliver env s (BinaryMessage [])) = []"
proof (intro conjI impI)
  assume "b \<noteq> []"
  then show "list_ex is_send (snd (deliver env s (BinaryMessage b)))"
    by (rule deliver_frame_sends)
next
  assume "t \<noteq> [] \<and> json_loads env t = Inl e"
  then show "list_ex is_send (snd (deliver env s (TextMessage t)))"
    by (simp add: deliver_text_undecodable)
next
  assume "t \<noteq> [] \<and> json_loads env t = Inr d \<and> \<not> is_object d"
  then show "list_ex is_send (snd (deliver env s (TextMessage t)))"
    by (simp add: deliver_text_not_object)
next
  assume "t \<noteq> [] \<and> json_loads env t = Inr (JObj kvs)
        \<and> map_of kvs ''type'' = Some (JStr ''configure'')"
  then show "list_ex is_send (snd (deliver env s (TextMessage t)))"
    by (simp add: deliver_text_configure)
next
  assume "t \<noteq> [] \<and> json_loads env t = Inr (JObj kvs)
        \<and> map_of kvs ''type'' \<noteq> Some (JStr ''configure'')"
  then show "snd (deliver env s (TextMessage t)) = []"
    by (simp add: deliver_text_other_object)
next
  show "snd (deliver env s (TextMessage [])) = []" by (simp add: deliver_empty)
next
  show "snd (deliver env s (BinaryMessage [])) = []" by (simp add: deliver_empty)
qed

theorem answered_and_unanswered_messages_witness:
  "jpeg \<noteq> []
   \<and> snd (deliver calm (ready 2) (BinaryMessage jpeg)) = [Send (FrameReceived 1 False)]
   \<and> list_ex is_send (snd (deliver calm (ready 2) (BinaryMessage jpeg)))
   \<and> configure_2 \<noteq> []
   \<and> list_ex is_send (snd (deliver calm (ready 1) (TextMessage configure_2)))"
proof -
  have h1: "jpeg \<noteq> []" by (simp add: jpeg_def)
  have h2: "configure_2 \<noteq> []" by (simp add: configure_2_def)
  have h3: "json_loads calm configure_2 =
      Inr (JObj [(''type'', JStr ''configure''), (''interval'', JInt 2)])"
    by (simp add: calm_def world_def loads_known_configure_2)
  have e: "snd (deliver calm (ready 2) (BinaryMessage jpeg)) = [Send (FrameReceived 1 False)]"
    using deliver_frame_skipped [where s = "ready 2" and n = 2 and b = jpeg and env = calm]
    by (simp add: ready_def jpeg_def)
  from answered_and_unanswered_messages
    [where b = jpeg and env = calm and s = "ready 2"] h1
  have a: "list_ex is_send (snd (deliver calm (ready 2) (BinaryMessage jpeg)))"
    by blast
  from answered_and_unanswered_messages
    [where t = configure_2 and env = calm and s = "ready 1"
       and kvs = "[(''type'', JStr ''configure''), (''interval'', JInt 2)]"] h2 h3
  have c: "list_ex is_send (snd (deliver calm (ready 1) (TextMessage configure_2)))"
    by simp
  from h1 h2 e a c show ?thesis by simp
qed

section \<open>The result of an analysis\<close>

lemma analyze_frame_try_raw:
  "fst (analyze_frame_try env frame) =
     (case raw_output env frame of
        Inl e \<Rightarrow> Inl e
      | Inr content \<Rightarrow> parse_content env content)"
  by (simp add: analyze_frame_try_def raw_output_def split: sum.splits)

lemma analyze_frame_fst:
  "fst (analyze_frame env frame) =
     Inr (case fst (analyze_frame_try env frame) of
            Inr r \<Rightarrow> r
          | Inl e \<Rightarrow> failure_result e)"
  by (cases "analyze_frame_try env frame") (simp add: analyze_frame_def split: sum.splits)

lemma analyze_frame_snd:
  "snd (analyze_frame env frame) = snd (analyze_frame_try env frame)"
  by (cases "analyze_frame_try env frame") (simp add: analyze_frame_def split: sum.splits)


lemma fallback_fields:
  "field parse_fallback ''drowsiness_level'' = Some (JStr ''unknown'')"
  "field parse_fallback ''confidence'' = Some (JFloat (Finite 0))"
  "field (failure_result e) ''drowsiness_level'' = Some (JStr ''unknown'')"
  "field (failure_result e) ''confidence'' = Some (JFloat (Finite 0))"
  by (simp_all add: field_def parse_fallback_def failure_result_def)

lemma analyze_frame_camera:
  assumes "b \<noteq> []"
  shows "raw_output (world key camera reply) b = reply"
    and "snd (analyze_frame_try (world key camera reply) b) = [ApiRequest camera ''/9j/4AAQ'']"
  using assms
  by (simp_all add: raw_output_def analyze_frame_try_def preprocess_image_def encode_image_def
      world_def camera_def max_size_def split: sum.splits)

text \<open>
  Against C2 as stated: when the remote model answers
  \<open>{"drowsiness_level": "sleepy", "confidence": 7}\<close>, the client receives an
  \<open>analysis_result\<close> with exactly that object, whose level is none of the five and whose
  confidence is not in the range from 0 to 1.
\<close>

theorem sleepy_result_reaches_the_client:
  "deliver confused (ready 1) (BinaryMessage jpeg) =
     ((ready 1)\<lparr>frame_count := 1, last_analysis_result := Some sleepy_result\<rparr>,
      [Send (Processing 1 ''Analyzing frame...''), Infer jpeg,
       ApiRequest camera ''/9j/4AAQ'', Send (AnalysisResult 1 sleepy_result)])
   \<and> \<not> spec_result_ok sleepy_result"
proof -
  have j: "jpeg \<noteq> []" by (simp add: jpeg_def)
  have "fst (analyze_frame_try confused jpeg) = Inr sleepy_result"
    unfolding confused_def analyze_frame_try_raw analyze_frame_camera(1) [OF j]
    by (simp add: parse_content_def world_def loads_known_reply_sleepy)
  moreover have "snd (analyze_frame_try confused jpeg) = [ApiRequest camera ''/9j/4AAQ'']"
    unfolding confused_def by (rule analyze_frame_camera(2) [OF j])
  ultimately have a: "analyze_frame confused jpeg = (Inr sleepy_result, [ApiRequest camera ''/9j/4AAQ''])"
    by (cases "analyze_frame_try confused jpeg") (simp add: analyze_frame_def)
  have "deliver confused (ready 1) (BinaryMessage jpeg) =
     ((ready 1)\<lparr>frame_count := 1, last_analysis_result := Some sleepy_result\<rparr>,
      [Send (Processing 1 ''Analyzing frame...''), Infer jpeg,
       ApiRequest camera ''/9j/4AAQ'', Send (AnalysisResult 1 sleepy_result)])"
    using deliver_frame_analyzed [where s = "ready 1" and n = 1 and b = jpeg and env = confused,
        OF _ _ j _ _ a]
    by (simp add: ready_def)
  moreover have "\<not> spec_result_ok sleepy_result"
    by (simp add: spec_result_ok_def sleepy_result_def spec_levels_def)
  ultimately show ?thesis by simp
qed

lemma analyze_frame_of_raw:
  "fst (analyze_frame env frame) =
     Inr (case raw_output env frame of
            Inl e \<Rightarrow> failure_result e
          | Inr content \<Rightarrow>
              (case parse_content env content of
                 Inr v \<Rightarrow> v
               | Inl e \<Rightarrow> failure_result e))"
  by (simp add: analyze_frame_fst analyze_frame_try_raw split: sum.splits)

lemma process_frame_result_origin:
  assumes "Send (AnalysisResult k r) \<in> set (snd (process_frame env s frame))"
  shows "fst (analyze_frame env frame) = Inr r \<and> k = frame_count s"
proof -
  obtain v fx where a: "analyze_frame env frame = (Inr v, fx)"
    using analyze_frame_returns by blast
  have "\<forall>x \<in> set fx. \<forall>m. x \<noteq> Send m"
    using analyze_frame_effects [of _ env frame] a by auto
  with assms a show ?thesis
    by (auto simp: process_frame_def Let_def split: option.splits)
qed

lemma deliver_result_origin:
  assumes "Send (AnalysisResult k r) \<in> set (snd (deliver env s m))"
  shows "\<exists>b. m = BinaryMessage b \<and> fst (analyze_frame env b) = Inr r \<and> k = frame_count s + 1"
proof (cases m)
  case (TextMessage t)
  with assms show ?thesis
    by (cases "receive_text env s t")
       (auto simp: deliver_def receive_def receive_try_def receive_text_def
         split: sum.splits if_splits)
next
  case (BinaryMessage b)
  with assms show ?thesis
    using process_frame_result_origin [of k r env "s\<lparr>frame_count := frame_count s + 1\<rparr>" b]
    by (cases "process_frame env (s\<lparr>frame_count := frame_count s + 1\<rparr>) b")
       (auto simp: deliver_def receive_def receive_try_def receive_bytes_def Let_def
         split: sum.splits if_splits)
qed

text \<open>
  C2, amended. No confidence is clamped and no level is mapped; the result of
  \<open>analyze_frame\<close> is decided by the raw output of the remote model:
  \<^item> when its strict parse succeeds, the result is the decoded value as it is;
  \<^item> when its strict parse raises a \<open>JSONDecodeError\<close>, it has a \<open>{\<close> and a \<open>}\<close>, and the
    text from the first \<open>{\<close> to the last \<open>}\<close> parses, the result is that decoded value as
    it is;
  \<^item> in every other case (that second parse raises, a brace is missing, the strict
    parse raises another exception, there is no content, an exception came before the
    reply) the result is a dictionary that the service builds, whose level is \<open>unknown\<close>
    and whose confidence is 0.0.
  Every \<open>analysis_result\<close> a session sends answers a binary message and carries the
  result of \<open>analyze_frame\<close> for it.
\<close>

theorem result_is_passed_through_or_service_built:
  "(raw_output env frame = Inr (Some c) \<and> json_loads env c = Inr v \<longrightarrow>
      fst (analyze_frame env frame) = Inr v)
   \<and> (raw_output env frame = Inr (Some c) \<and> json_loads env c = Inl e
        \<and> exn_class_of e = JSONDecodeError
        \<and> py_find c (CHR ''{'') \<noteq> - 1 \<and> py_rfind c (CHR ''}'') \<noteq> - 1
        \<and> json_loads env (py_slice c (py_find c (CHR ''{'')) (py_rfind c (CHR ''}'') + 1)) = Inr v \<longrightarrow>
      fst (analyze_frame env frame) = Inr v)
   \<and> (raw_output env frame = Inr (Some c) \<and> json_loads env c = Inl e
        \<and> exn_class_of e = JSONDecodeError
        \<and> py_find c (CHR ''{'') \<noteq> - 1 \<and> py_rfind c (CHR ''}'') \<noteq> - 1
        \<and> json_loads env (py_slice c (py_find c (CHR ''{'')) (py_rfind c (CHR ''}'') + 1)) = Inl e2 \<longrightarrow>
      fst (analyze_frame env frame) = Inr (failure_result e2))
   \<and> (raw_output env frame = Inr (Some c) \<and> json_loads env c = Inl e
        \<and> exn_class_of e = JSONDecodeError
        \<and> (py_find c (CHR ''{'') = - 1 \<or> py_rfind c (CHR ''}'') = - 1) \<longrightarrow>
      fst (analyze_frame env frame) = Inr parse_fallback)
   \<and> (raw_output env frame = Inr (Some c) \<and> json_loads env c = Inl e
        \<and> exn_class_of e \<noteq> JSONDecodeError \<longrightarrow>
      fst (analyze_frame env frame) = Inr (failure_result e))
   \<and> (raw_output env frame = Inr None \<longrightarrow>
      (\<exists>msg. fst (analyze_frame env frame) = Inr (failure_result (Exn TypeError msg))))
   \<and> (raw_output env frame = Inl e \<longrightarrow>
      fst (analyze_frame env frame) = Inr (failure_result e))
   \<and> field parse_fallback ''drowsiness_level'' = Some (JStr ''unknown'')
   \<and> field parse_fallback ''confidence'' = Some (JFloat (Finite 0))
   \<and> field (failure_result e3) ''drowsiness_level'' = Some (JStr ''unknown'')
   \<and> field (failure_result e3) ''confidence'' = Some (JFloat (Finite 0))
   \<and> (Send (AnalysisResult k r) \<in> set (snd (deliver env s m)) \<longrightarrow>
        (\<exists>b. m = BinaryMessage b \<and> fst (analyze_frame env b) = Inr r \<and> k = frame_count s + 1))"
proof (intro conjI impI)
  assume "raw_output env frame = Inr (Some c) \<and> json_loads env c = Inr v"
  then show "fst (analyze_frame env frame) = Inr v"
    by (simp add: analyze_frame_of_raw parse_content_def)
next
  assume "raw_output env frame = Inr (Some c) \<and> json_loads env c = Inl e
        \<and> exn_class_of e = JSONDecodeError
        \<and> py_find c (CHR ''{'') \<noteq> - 1 \<and> py_rfind c (CHR ''}'') \<noteq> - 1
        \<and> json_loads env (py_slice c (py_find c (CHR ''{'')) (py_rfind c (CHR ''}'') + 1)) = Inr v"
  then show "fst (analyze_frame env frame) = Inr v"
    by (simp add: analyze_frame_of_raw parse_content_def Let_def)
next
  assume "raw_output env frame = Inr (Some c) \<and> json_loads env c = Inl e
        \<and> exn_class_of e = JSONDecodeError
        \<and> py_find c (CHR ''{'') \<noteq> - 1 \<and> py_rfind c (CHR ''}'') \<noteq> - 1
        \<and> json_loads env (py_slice c (py_find c (CHR ''{'')) (py_rfind c (CHR ''}'') + 1)) = Inl e2"
  then show "fst (analyze_frame env frame) = Inr (failure_result e2)"
    by (simp add: analyze_frame_of_raw parse_content_def Let_def)
next
  assume "raw_output env frame = Inr (Some c) \<and> json_loads env c = Inl e
        \<and> exn_class_of e = JSONDecodeError
        \<and> (py_find c (CHR ''{'') = - 1 \<or> py_rfind c (CHR ''}'') = - 1)"
  then show "fst (analyze_frame env frame) = Inr parse_fallback"
    by (auto simp: analyze_frame_of_raw parse_content_def Let_def)
next
  assume "raw_output env frame = Inr (Some c) \<and> json_loads env c = Inl e
        \<and> exn_class_of e \<noteq> JSONDecodeError"
  then show "fst (analyze_frame env frame) = Inr (failure_result e)"
    by (simp add: analyze_frame_of_raw parse_content_def)
next
  assume "raw_output env frame = Inr None"
  then show "\<exists>msg. fst (analyze_frame env frame) = Inr (failure_result (Exn TypeError msg))"
    by (auto simp: analyze_frame_of_raw parse_content_def)
next
  assume "raw_output env frame = Inl e"
  then show "fst (analyze_frame env frame) = Inr (failure_result e)"
    by (simp add: analyze_frame_of_raw)
next
  assume "Send (AnalysisResult k r) \<in> set (snd (deliver env s m))"
  then show "\<exists>b. m = BinaryMessage b \<and> fst (analyze_frame env b) = Inr r \<and> k = frame_count s + 1"
    by (rule deliver_result_origin)
qed (simp_all add: fallback_fields)

theorem result_is_passed_through_or_service_built_witness:
  "raw_output calm jpeg = Inr (Some reply_awake)
   \<and> json_loads calm reply_awake = Inr awake_result
   \<and> fst (analyze_frame calm jpeg) = Inr awake_result
   \<and> raw_output chatty jpeg = Inr (Some reply_chatty)
   \<and> json_loads chatty reply_chatty =
        Inl (Exn JSONDecodeError ''Expecting value: line 1 column 1 (char 0)'')
   \<and> py_find reply_chatty (CHR ''{'') = 6
   \<and> py_rfind reply_chatty (CHR ''}'') = 52
   \<and> py_slice reply_chatty 6 53 = reply_sleepy
   \<and> json_loads chatty reply_sleepy = Inr sleepy_result
   \<and> fst (analyze_frame chatty jpeg) = Inr sleepy_result"
proof -
  have j: "jpeg \<noteq> []" by (simp add: jpeg_def)
  have h1: "raw_output calm jpeg = Inr (Some reply_awake)"
    unfolding calm_def by (rule analyze_frame_camera(1) [OF j])
  have h2: "json_loads calm reply_awake = Inr awake_result"
    by (simp add: calm_def world_def loads_known_reply_awake)
  from result_is_passed_through_or_service_built
    [where env = calm and frame = jpeg and c = reply_awake and v = awake_result] h1 h2
  have r1: "fst (analyze_frame calm jpeg) = Inr awake_result" by blast
  have g1: "raw_output chatty jpeg = Inr (Some reply_chatty)"
    unfolding chatty_def by (rule analyze_frame_camera(1) [OF j])
  have g2: "json_loads chatty reply_chatty =
      Inl (Exn JSONDecodeError ''Expecting value: line 1 column 1 (char 0)'')"
    by (simp add: chatty_def world_def loads_known_rejects_more)
  have g3: "exn_class_of (Exn JSONDecodeError ''Expecting value: line 1 column 1 (char 0)'')
      = JSONDecodeError"
    by simp
  have g4: "py_find reply_chatty (CHR ''{'') = 6"
    by (simp add: reply_chatty_def)
  have g5: "py_rfind reply_chatty (CHR ''}'') = 52"
    by (simp add: reply_chatty_def py_rfind_def)
  have g6: "py_slice reply_chatty 6 53 = reply_sleepy"
    by (simp add: reply_chatty_def reply_sleepy_def py_slice_def py_index_def)
  have g7: "json_loads chatty reply_sleepy = Inr sleepy_result"
    by (simp add: chatty_def world_def loads_known_reply_sleepy)
  from result_is_passed_through_or_service_built
    [where env = chatty and frame = jpeg and c = reply_chatty and v = sleepy_result
       and e = "Exn JSONDecodeError ''Expecting value: line 1 column 1 (char 0)''"]
    g1 g2 g3 g4 g5 g6 g7
  have r2: "fst (analyze_frame chatty jpeg) = Inr sleepy_result" by simp
  from h1 h2 r1 g1 g2 g4 g5 g6 g7 r2 show ?thesis by simp
qed

section \<open>Output that does not parse\<close>






section \<open>A failing analysis\<close>

text \<open>
  Against C6 as stated: when the API call of an analysed frame raises a connection
  error, the client receives \<open>processing\<close> and an \<open>analysis_result\<close> whose data describe
  the failure; no \<open>analysis_error\<close> is sent.
\<close>

theorem connection_error_is_sent_as_result:
  "deliver offline (ready 1) (BinaryMessage jpeg) =
     ((ready 1)\<lparr>frame_count := 1,
        last_analysis_result := Some (failure_result (Exn APIConnectionError ''Connection error.''))\<rparr>,
      [Send (Processing 1 ''Analyzing frame...''), Infer jpeg, ApiRequest camera ''/9j/4AAQ'',
       Send (AnalysisResult 1 (failure_result (Exn APIConnectionError ''Connection error.'')))])
   \<and> \<not> list_ex is_analysis_error (snd (deliver offline (ready 1) (BinaryMessage jpeg)))"
proof -
  have j: "jpeg \<noteq> []" by (simp add: jpeg_def)
  have "fst (analyze_frame_try offline jpeg) = Inl (Exn APIConnectionError ''Connection error.'')"
    unfolding offline_def analyze_frame_try_raw analyze_frame_camera(1) [OF j] by simp
  moreover have "snd (analyze_frame_try offline jpeg) = [ApiRequest camera ''/9j/4AAQ'']"
    unfolding offline_def by (rule analyze_frame_camera(2) [OF j])
  ultimately have a: "analyze_frame offline jpeg =
      (Inr (failure_result (Exn APIConnectionError ''Connection error.'')),
       [ApiRequest camera ''/9j/4AAQ''])"
    by (cases "analyze_frame_try offline jpeg") (simp add: analyze_frame_def)
  have d: "deliver offline (ready 1) (BinaryMessage jpeg) =
     ((ready 1)\<lparr>frame_count := 1,
        last_analysis_result := Some (failure_result (Exn APIConnectionError ''Connection error.''))\<rparr>,
      [Send (Processing 1 ''Analyzing frame...''), Infer jpeg, ApiRequest camera ''/9j/4AAQ'',
       Send (AnalysisResult 1 (failure_result (Exn APIConnectionError ''Connection error.'')))])"
    using deliver_frame_analyzed [where s = "ready 1" and n = 1 and b = jpeg and env = offline,
        OF _ _ j _ _ a]
    by (simp add: ready_def)
  show ?thesis unfolding d by simp
qed

lemma analyze_frame_try_requests_only:
  "x \<in> set (snd (analyze_frame_try env b)) \<Longrightarrow> \<exists>img b64. x = ApiRequest img b64"
  by (auto simp: analyze_frame_try_def split: sum.splits)

lemma analyze_frame_try_no_analysis_error:
  "\<not> list_ex is_analysis_error (snd (analyze_frame_try env b))"
proof
  assume "list_ex is_analysis_error (snd (analyze_frame_try env b))"
  then obtain x where x: "x \<in> set (snd (analyze_frame_try env b))" "is_analysis_error x"
    by (auto simp: list_ex_iff)
  from analyze_frame_try_requests_only [OF x(1)] x(2) show False by auto
qed

lemma analyze_frame_try_no_close:
  "Close \<notin> set (snd (analyze_frame_try env b))"
  using analyze_frame_try_requests_only [of Close env b] by auto

text \<open>
  C6, amended. Every failure inside \<open>analyze_frame\<close> on an analysed frame (decoding or
  preparing the image, the API call with its transport, authentication and throttling
  errors, a failing second parse) is caught there: the client receives \<open>processing\<close> and
  then an \<open>analysis_result\<close> with the frame number and the failure result (the \<open>error\<close>
  field holds the description, the level is \<open>unknown\<close>, the confidence 0.0); no
  \<open>analysis_error\<close> is sent and the connection is not closed. The session goes on: the
  next frame is counted and answered.
\<close>

theorem pipeline_failure_is_sent_as_result:
  assumes "analysis_service s = Some svc" and "analysis_interval s = JInt n" and "n \<noteq> 0"
    and "n dvd frame_count s + 1" and "b \<noteq> []"
    and "fst (analyze_frame_try env b) = Inl e"
  shows "deliver env s (BinaryMessage b) =
           (s\<lparr>frame_count := frame_count s + 1,
              last_analysis_result := Some (failure_result e)\<rparr>,
            [Send (Processing (frame_count s + 1) ''Analyzing frame...''), Infer b]
            @ snd (analyze_frame_try env b)
            @ [Send (AnalysisResult (frame_count s + 1) (failure_result e))])
       \<and> \<not> list_ex is_analysis_error (snd (deliver env s (BinaryMessage b)))
       \<and> Close \<notin> set (snd (deliver env s (BinaryMessage b)))
       \<and> (b2 \<noteq> [] \<longrightarrow>
            frame_count (fst (deliver env2 (fst (deliver env s (BinaryMessage b))) (BinaryMessage b2)))
              = frame_count s + 2
            \<and> list_ex is_send
                (snd (deliver env2 (fst (deliver env s (BinaryMessage b))) (BinaryMessage b2))))"
proof -
  have a: "analyze_frame env b = (Inr (failure_result e), snd (analyze_frame_try env b))"
    using assms(6) by (cases "analyze_frame_try env b") (simp add: analyze_frame_def)
  have d: "deliver env s (BinaryMessage b) =
           (s\<lparr>frame_count := frame_count s + 1,
              last_analysis_result := Some (failure_result e)\<rparr>,
            [Send (Processing (frame_count s + 1) ''Analyzing frame...''), Infer b]
            @ snd (analyze_frame_try env b)
            @ [Send (AnalysisResult (frame_count s + 1) (failure_result e))])"
    by (rule deliver_frame_analyzed [OF assms(2) assms(3) assms(5) assms(4) assms(1) a])
  have noerr: "\<not> list_ex is_analysis_error (snd (deliver env s (BinaryMessage b)))"
    unfolding d using analyze_frame_try_no_analysis_error [of env b] by simp
  have noclose: "Close \<notin> set (snd (deliver env s (BinaryMessage b)))"
    unfolding d using analyze_frame_try_no_close [of env b] by simp
  have next_frame: "frame_count (fst (deliver env2 (fst (deliver env s (BinaryMessage b))) (BinaryMessage b2)))
              = frame_count s + 2
            \<and> list_ex is_send
                (snd (deliver env2 (fst (deliver env s (BinaryMessage b))) (BinaryMessage b2)))"
    if "b2 \<noteq> []"
    using that deliver_frame_sends [OF that] deliver_frame_count [of env2 _ "BinaryMessage b2"]
    unfolding d by simp
  from d noerr noclose next_frame show ?thesis by blast
qed

theorem pipeline_failure_is_sent_as_result_witness:
  "analysis_service (ready 1) = Some the_service \<and> analysis_interval (ready 1) = JInt 1
   \<and> (1::int) \<noteq> 0 \<and> jpeg \<noteq> []
   \<and> fst (analyze_frame_try throttled jpeg) = Inl (Exn RateLimitError ''Rate limit reached'')
   \<and> deliver throttled (ready 1) (BinaryMessage jpeg) =
        ((ready 1)\<lparr>frame_count := 1,
           last_analysis_result := Some (failure_result (Exn RateLimitError ''Rate limit reached''))\<rparr>,
         [Send (Processing 1 ''Analyzing frame...''), Infer jpeg, ApiRequest camera ''/9j/4AAQ'',
          Send (AnalysisResult 1 (failure_result (Exn RateLimitError ''Rate limit reached'')))])
   \<and> frame_count (fst (deliver calm (fst (deliver throttled (ready 1) (BinaryMessage jpeg)))
        (BinaryMessage jpeg))) = 2"
proof -
  have h1: "analysis_service (ready 1) = Some the_service" by (simp add: ready_def)
  have h2: "analysis_interval (ready 1) = JInt 1" by (simp add: ready_def)
  have h3: "(1::int) \<noteq> 0" by simp
  have h4: "(1::int) dvd frame_count (ready 1) + 1" by simp
  have h5: "jpeg \<noteq> []" by (simp add: jpeg_def)
  have fc: "frame_count (ready 1) = 0" by (simp add: ready_def)
  have h6: "fst (analyze_frame_try throttled jpeg) = Inl (Exn RateLimitError ''Rate limit reached'')"
    unfolding throttled_def analyze_frame_try_raw analyze_frame_camera(1) [OF h5] by simp
  have fx: "snd (analyze_frame_try throttled jpeg) = [ApiRequest camera ''/9j/4AAQ'']"
    unfolding throttled_def by (rule analyze_frame_camera(2) [OF h5])
  note t = pipeline_failure_is_sent_as_result [OF h1 h2 h3 h4 h5 h6, where ?b2.0 = jpeg and ?env2.0 = calm]
  from t fx have "deliver throttled (ready 1) (BinaryMessage jpeg) =
        ((ready 1)\<lparr>frame_count := 1,
           last_analysis_result := Some (failure_result (Exn RateLimitError ''Rate limit reached''))\<rparr>,
         [Send (Processing 1 ''Analyzing frame...''), Infer jpeg, ApiRequest camera ''/9j/4AAQ'',
          Send (AnalysisResult 1 (failure_result (Exn RateLimitError ''Rate limit reached'')))])"
    by (simp add: ready_def)
  moreover from t h5 have "frame_count (fst (deliver calm (fst (deliver throttled (ready 1) (BinaryMessage jpeg)))
        (BinaryMessage jpeg))) = frame_count (ready 1) + 2"
    by blast
  then have "frame_count (fst (deliver calm (fst (deliver throttled (ready 1) (BinaryMessage jpeg)))
        (BinaryMessage jpeg))) = 2"
    by (simp add: fc)
  ultimately show ?thesis using h1 h2 h3 h5 h6 by simp
qed

end
